theory Spec2Isabelle
  imports Main "HOL-Library.AList"
begin

section \<open>Values, truthiness and exceptions of the Python code\<close>

text \<open>
  The extractors handle decoded JSON and raise Python exceptions. A decoded JSON value
  is a \<open>json\<close>; \<open>JNull\<close> is Python's \<open>None\<close>. A dict is an association list in
  insertion order, read with \<open>map_of\<close>. Floating point numbers are not modelled; the
  one place that computes one (a duration) is a parameter.
\<close>

datatype json =
    JNull
  | JBool bool
  | JNum int
  | JStr string
  | JArr "json list"
  | JObj "(string \<times> json) list"

datatype exn =
    ExtractorError
  | KeyError
  | TypeError
  | AttributeError
  | IndexError
  | ValueError

text \<open>The exceptions of a failed lookup in a value: a missing attribute, key or index, or
  a value of the wrong kind.\<close>

fun lookup_error :: "exn \<Rightarrow> bool" where
  "lookup_error AttributeError = True"
| "lookup_error KeyError = True"
| "lookup_error TypeError = True"
| "lookup_error IndexError = True"
| "lookup_error _ = False"

text \<open>Python truth value testing, as \<open>if x\<close>, \<open>not x\<close> and \<open>x or y\<close> use it.\<close>

fun truthy :: "json \<Rightarrow> bool" where
  "truthy JNull = False"
| "truthy (JBool b) = b"
| "truthy (JNum n) = (n \<noteq> 0)"
| "truthy (JStr s) = (s \<noteq> [])"
| "truthy (JArr xs) = (xs \<noteq> [])"
| "truthy (JObj kvs) = (kvs \<noteq> [])"

text \<open>\<open>x or y\<close>.\<close>

definition py_or :: "json \<Rightarrow> json \<Rightarrow> json" where
  "py_or x y = (if truthy x then x else y)"

text \<open>
  \<open>x[key]\<close> with a string key: a dict without the key raises KeyError, every other
  value raises TypeError (a list or a string wants integer indices, the rest is not
  subscriptable).
\<close>

fun getitem :: "json \<Rightarrow> string \<Rightarrow> exn + json" where
  "getitem (JObj kvs) k = (case map_of kvs k of None \<Rightarrow> Inl KeyError | Some v \<Rightarrow> Inr v)"
| "getitem _ k = Inl TypeError"

text \<open>\<open>x[0]\<close>. The keys of a decoded JSON object are strings, so \<open>0\<close> is never one.\<close>

fun getindex0 :: "json \<Rightarrow> exn + json" where
  "getindex0 (JArr xs) = (case xs of [] \<Rightarrow> Inl IndexError | x # _ \<Rightarrow> Inr x)"
| "getindex0 (JStr s) = (case s of [] \<Rightarrow> Inl IndexError | c # _ \<Rightarrow> Inr (JStr [c]))"
| "getindex0 (JObj kvs) = Inl KeyError"
| "getindex0 _ = Inl TypeError"

text \<open>\<open>d.get(key)\<close> on a dict.\<close>

fun dict_get :: "json \<Rightarrow> string \<Rightarrow> json" where
  "dict_get (JObj kvs) k = (case map_of kvs k of None \<Rightarrow> JNull | Some v \<Rightarrow> v)"
| "dict_get _ k = JNull"

text \<open>\<open>isinstance(v, compat_str)\<close> and \<open>isinstance(v, dict)\<close>.\<close>

fun is_str :: "json \<Rightarrow> bool" where
  "is_str (JStr s) = True"
| "is_str _ = False"

fun is_dict :: "json \<Rightarrow> bool" where
  "is_dict (JObj kvs) = True"
| "is_dict _ = False"

text \<open>A helper that returns a string or \<open>None\<close>.\<close>

fun opt_str :: "string option \<Rightarrow> json" where
  "opt_str None = JNull"
| "opt_str (Some s) = JStr s"

text \<open>\<open>r.update(query)\<close> on dicts.\<close>

definition dict_update :: "(string \<times> json) list \<Rightarrow> (string \<times> json) list \<Rightarrow> (string \<times> json) list" where
  "dict_update r query = fold (\<lambda>(k, v) d. AList.update k v d) query r"

text \<open>\<open>s.startswith(p)\<close>, \<open>s.endswith(p)\<close> and \<open>sub in s\<close> on strings.\<close>

fun starts_with :: "string \<Rightarrow> string \<Rightarrow> bool" where
  "starts_with [] s = True"
| "starts_with (c # cs) [] = False"
| "starts_with (c # cs) (d # ds) = (c = d \<and> starts_with cs ds)"

definition ends_with :: "string \<Rightarrow> string \<Rightarrow> bool" where
  "ends_with suffix s = starts_with (rev suffix) (rev s)"

fun contains :: "string \<Rightarrow> string \<Rightarrow> bool" where
  "contains sub [] = (sub = [])"
| "contains sub (c # s) = (starts_with sub (c # s) \<or> contains sub s)"

section \<open>The fallback combinator \<open>try_get\<close>\<close>

text \<open>
  Modelled from the spec: \<open>try_get\<close> of utils.py, which is not among the sources (only
  its callers are). Section 4.2: "given an ordered sequence of zero-argument producers,
  evaluate lazily in order, return the first result that is non-null and of the expected
  type, short-circuiting remaining producers". A producer is a getter applied to \<open>src\<close>;
  it may have effects, so it takes the state \<open>w\<close> and returns the new one. A getter whose
  lookup fails (\<open>lookup_error\<close>) counts as one that produced nothing usable; any other
  exception of a getter, such as the ExtractorError of a failed request, ends the lookup
  and reaches the caller. When no producer gives a usable value the result is null, as
  the callers' \<open>try_get(...) or ''\<close> and \<open>if not title\<close> expect.
\<close>

fun try_get :: "'a \<Rightarrow> ('a \<Rightarrow> 'w \<Rightarrow> (exn + json) \<times> 'w) list \<Rightarrow> (json \<Rightarrow> bool) \<Rightarrow> 'w \<Rightarrow> (exn + json) \<times> 'w" where
  "try_get src [] expected w = (Inr JNull, w)"
| "try_get src (g # gs) expected w =
     (case g src w of
        (Inr v, w') \<Rightarrow> if v \<noteq> JNull \<and> expected v then (Inr v, w') else try_get src gs expected w'
      | (Inl e, w') \<Rightarrow> if lookup_error e then try_get src gs expected w' else (Inl e, w'))"

text \<open>A getter without effects, and one that only records that it ran.\<close>

definition pure_getter :: "('a \<Rightarrow> exn + json) \<Rightarrow> 'a \<Rightarrow> unit \<Rightarrow> (exn + json) \<times> unit" where
  "pure_getter f x w = (f x, w)"


section \<open>The Mildom base extractor (mildom.py)\<close>

text \<open>
  What the extractor does to the outside world is recorded as a trace of events: a
  \<open>_download_json\<close> request (URL, query dict, and the fields of the POST payload when
  there is one) and a cookie jar lookup.
\<close>

datatype event =
    Download string "(string \<times> json) list" "(string \<times> json) list option"
  | GetCookies string

text \<open>
  The collaborators that are not among the sources (\<open>InfoExtractor._download_json\<close>,
  \<open>_parse_json\<close>, \<open>_get_cookies\<close>) and the library (\<open>base64\<close>, \<open>datetime\<close>, \<open>random\<close>)
  are parameters. A network answer may depend on the moment it is asked for, the number of
  events so far. \<open>None\<close> from \<open>download_json\<close> or \<open>parse_json\<close> is an
  \<open>ExtractorError\<close> (transport failure, invalid JSON); \<open>None\<close> from \<open>b64decode\<close> is
  \<open>binascii.Error\<close>, a \<open>ValueError\<close>.
\<close>

record env =
  download_json :: "nat \<Rightarrow> event \<Rightarrow> json option"
  b64decode :: "string \<Rightarrow> string option"
  parse_json :: "string \<Rightarrow> json option"
  get_cookies :: "nat \<Rightarrow> string \<Rightarrow> (string \<times> string) list"
  clock :: "nat \<Rightarrow> string"
  user_agent :: string
  random_choice :: "nat \<Rightarrow> nat"

text \<open>
  One extractor instance. \<open>_DISPATCHER_CONFIG\<close> and \<open>_GUEST_ID\<close> are \<open>None\<close> on the
  class and are assigned through \<open>self\<close>, so each instance holds its own values.
  \<open>guest_id_calls\<close> is not in the source: it counts the invocations of \<open>guest_id\<close>.
\<close>

record mildom_ie =
  DISPATCHER_CONFIG :: json
  GUEST_ID :: json
  trace :: "event list"
  guest_id_calls :: nat

definition emit :: "event \<Rightarrow> mildom_ie \<Rightarrow> mildom_ie" where
  "emit e s = s\<lparr>trace := trace s @ [e]\<rparr>"

definition now :: "mildom_ie \<Rightarrow> nat" where
  "now s = length (trace s)"

definition MILDOM_PROXY_HOSTS :: "string list" where
  "MILDOM_PROXY_HOSTS = [''bookish-octo-barnacle.vercel.app'', ''free-mountain-goal.glitch.me'']"

definition iso_timestamp :: "env \<Rightarrow> mildom_ie \<Rightarrow> string" where
  "iso_timestamp E s = clock E (now s)"

definition lang_code :: string where
  "lang_code = ''ja''"

text \<open>\<open>random.choice(self._MILDOM_PROXY_HOSTS)\<close>; the index is below the length.\<close>

definition mildom_proxy_host :: "env \<Rightarrow> mildom_ie \<Rightarrow> string" where
  "mildom_proxy_host E s =
     MILDOM_PROXY_HOSTS ! (random_choice E (now s) mod length MILDOM_PROXY_HOSTS)"

definition dispatcher_payload :: "env \<Rightarrow> mildom_ie \<Rightarrow> (string \<times> json) list" where
  "dispatcher_payload E s =
     [(''fr'', JStr ''web''), (''sfr'', JStr ''pc''), (''devi'', JStr ''Windows''),
      (''la'', JStr ''ja''), (''gid'', JNull), (''loc'', JStr ''''), (''clu'', JStr ''''),
      (''wh'', JStr ''1919*810''), (''rtm'', JStr (iso_timestamp E s)),
      (''ua'', JStr (user_agent E))]"

definition primary_request :: "env \<Rightarrow> mildom_ie \<Rightarrow> event" where
  "primary_request E s =
     Download ''https://disp.mildom.com/serverListV2'' [] (Some (dispatcher_payload E s))"

definition fallback_request :: "env \<Rightarrow> mildom_ie \<Rightarrow> event" where
  "fallback_request E s =
     Download (''https://'' @ mildom_proxy_host E s @ ''/api/mildom/dispatcher_config'') [] None"

text \<open>
  The body of the \<open>try\<close> block of \<open>_fetch_dispatcher_config\<close>: the request, then
  \<open>tmp['data']\<close>, \<open>base64.b64decode\<close> and \<open>_parse_json\<close>, each of which may raise.
\<close>

definition primary_config :: "env \<Rightarrow> mildom_ie \<Rightarrow> (exn + json) \<times> mildom_ie" where
  "primary_config E s =
     (let req = primary_request E s; s1 = emit req s in
      case download_json E (now s) req of
        None \<Rightarrow> (Inl ExtractorError, s1)
      | Some tmp \<Rightarrow>
          (case getitem tmp ''data'' of
             Inl e \<Rightarrow> (Inl e, s1)
           | Inr (JStr d) \<Rightarrow>
               (case b64decode E d of
                  None \<Rightarrow> (Inl ValueError, s1)
                | Some raw \<Rightarrow>
                    (case parse_json E raw of
                       None \<Rightarrow> (Inl ExtractorError, s1)
                     | Some cfg \<Rightarrow> (Inr cfg, s1)))
           | Inr _ \<Rightarrow> (Inl TypeError, s1)))"

text \<open>\<open>_fetch_dispatcher_config\<close>; \<open>except ExtractorError\<close> catches that exception only.\<close>

definition fetch_dispatcher_config :: "env \<Rightarrow> mildom_ie \<Rightarrow> (exn + json) \<times> mildom_ie" where
  "fetch_dispatcher_config E s =
     (if \<not> truthy (DISPATCHER_CONFIG s) then
        (case primary_config E s of
           (Inr cfg, s1) \<Rightarrow> (Inr cfg, s1\<lparr>DISPATCHER_CONFIG := cfg\<rparr>)
         | (Inl e, s1) \<Rightarrow>
             if e = ExtractorError then
               (let req = fallback_request E s1; s2 = emit req s1 in
                case download_json E (now s1) req of
                  None \<Rightarrow> (Inl ExtractorError, s2)
                | Some cfg \<Rightarrow> (Inr cfg, s2\<lparr>DISPATCHER_CONFIG := cfg\<rparr>))
             else (Inl e, s1))
      else (Inr (DISPATCHER_CONFIG s), s))"

text \<open>\<open>x._get_cookies(url).get('gid').value\<close>: without the cookie, \<open>None.value\<close> raises.\<close>

definition cookie_gid :: "env \<Rightarrow> string \<Rightarrow> mildom_ie \<Rightarrow> (exn + json) \<times> mildom_ie" where
  "cookie_gid E url s =
     (case map_of (get_cookies E (now s) url) ''gid'' of
        None \<Rightarrow> (Inl AttributeError, emit (GetCookies url) s)
      | Some v \<Rightarrow> (Inr (JStr v), emit (GetCookies url) s))"

text \<open>
  \<open>_common_queries\<close>, \<open>_call_api\<close> and \<open>guest_id\<close> call each other. The definition is
  accepted with a measure that depends on the function and on \<open>init\<close> only: the calls
  go from \<open>_call_api\<close> to \<open>_common_queries\<close>, from there to \<open>guest_id\<close> when \<open>init\<close> is
  False, and from \<open>guest_id\<close> to \<open>_call_api\<close> with \<open>init=True\<close>. (\<open>video_id\<close> and
  \<open>note\<close> only label the progress message and are left out.)
\<close>

function common_queries :: "env \<Rightarrow> (string \<times> json) list \<Rightarrow> bool \<Rightarrow> mildom_ie \<Rightarrow> (exn + (string \<times> json) list) \<times> mildom_ie"
  and call_api :: "env \<Rightarrow> string \<Rightarrow> (string \<times> json) list \<Rightarrow> bool \<Rightarrow> mildom_ie \<Rightarrow> (exn + json) \<times> mildom_ie"
  and guest_id :: "env \<Rightarrow> mildom_ie \<Rightarrow> (exn + json) \<times> mildom_ie"
where
  "common_queries E query init s =
     (case fetch_dispatcher_config E s of
        (Inl e, s1) \<Rightarrow> (Inl e, s1)
      | (Inr dc, s1) \<Rightarrow>
          (case (if init then (Inr (JStr ''''), s1) else guest_id E s1) of
             (Inl e, s2) \<Rightarrow> (Inl e, s2)
           | (Inr gid, s2) \<Rightarrow>
               (case getitem dc ''location'' of
                  Inl e \<Rightarrow> (Inl e, s2)
                | Inr loc \<Rightarrow>
                    (case getitem dc ''country'' of
                       Inl e \<Rightarrow> (Inl e, s2)
                     | Inr country \<Rightarrow>
                         (case getitem dc ''cluster'' of
                            Inl e \<Rightarrow> (Inl e, s2)
                          | Inr cluster \<Rightarrow>
                              (Inr (dict_update
                                 [(''timestamp'', JStr (iso_timestamp E s1)),
                                  (''__guest_id'', gid),
                                  (''__location'', loc),
                                  (''__country'', country),
                                  (''__cluster'', cluster),
                                  (''__platform'', JStr ''web''),
                                  (''__la'', JStr lang_code),
                                  (''__pcv'', JStr ''v2.9.44''),
                                  (''sfr'', JStr ''pc''),
                                  (''accessToken'', JStr '''')] query), s2))))))"
| "call_api E url query init s =
     (case common_queries E query init s of
        (Inl e, s1) \<Rightarrow> (Inl e, s1)
      | (Inr q, s1) \<Rightarrow>
          (case download_json E (now s1) (Download url q None) of
             None \<Rightarrow> (Inl ExtractorError, emit (Download url q None) s1)
           | Some reply \<Rightarrow> (getitem reply ''body'', emit (Download url q None) s1)))"
| "guest_id E s0 =
     (let s = s0\<lparr>guest_id_calls := Suc (guest_id_calls s0)\<rparr> in
      if truthy (GUEST_ID s) then (Inr (GUEST_ID s), s)
      else
        (case try_get ()
                [\<lambda>x w. (case call_api E ''https://cloudac.mildom.com/nonolive/gappserv/guest/h5init'' [] True w of
                           (Inl e, w') \<Rightarrow> (Inl e, w')
                         | (Inr body, w') \<Rightarrow>
                             (case getitem body ''guest_id'' of
                                Inl e \<Rightarrow> (Inl e, w')
                              | Inr v \<Rightarrow> (Inr (py_or v JNull), w'))),
                 \<lambda>x w. cookie_gid E ''https://www.mildom.com'' w,
                 \<lambda>x w. cookie_gid E ''https://m.mildom.com'' w]
                is_str s of
           (Inl e, s1) \<Rightarrow> (Inl e, s1)
         | (Inr v, s1) \<Rightarrow> (Inr (py_or v (JStr '''')), s1\<lparr>GUEST_ID := py_or v (JStr '''')\<rparr>)))"
  by pat_completeness auto
termination
  apply (relation "measure (\<lambda>x. case x of
            Inl (E, query, init, s) \<Rightarrow> (if init then 0 else 3)
          | Inr (Inl (E, url, query, init, s)) \<Rightarrow> (if init then 1 else 4)
          | Inr (Inr (E, s)) \<Rightarrow> 2)")
  apply auto
  done

declare common_queries.simps [simp del] call_api.simps [simp del] guest_id.simps [simp del]

text \<open>
  Names for parts of \<open>guest_id\<close>, used to state its properties: the state on entry, the
  first getter (the h5init request), what \<open>try_get\<close> accepts from it, and what
  it lets through to the caller.
\<close>

definition guest_id_entry :: "mildom_ie \<Rightarrow> mildom_ie" where
  "guest_id_entry s = s\<lparr>guest_id_calls := Suc (guest_id_calls s)\<rparr>"

definition h5init_url :: string where
  "h5init_url = ''https://cloudac.mildom.com/nonolive/gappserv/guest/h5init''"

definition www_url :: string where
  "www_url = ''https://www.mildom.com''"

definition m_url :: string where
  "m_url = ''https://m.mildom.com''"

definition h5init_guest_id :: "env \<Rightarrow> mildom_ie \<Rightarrow> (exn + json) \<times> mildom_ie" where
  "h5init_guest_id E w =
     (case call_api E ''https://cloudac.mildom.com/nonolive/gappserv/guest/h5init'' [] True w of
        (Inl e, w') \<Rightarrow> (Inl e, w')
      | (Inr body, w') \<Rightarrow>
          (case getitem body ''guest_id'' of
             Inl e \<Rightarrow> (Inl e, w')
           | Inr v \<Rightarrow> (Inr (py_or v JNull), w')))"

fun usable :: "exn + json \<Rightarrow> bool" where
  "usable (Inl e) = False"
| "usable (Inr v) = (v \<noteq> JNull \<and> is_str v)"

fun propagates :: "exn + json \<Rightarrow> bool" where
  "propagates (Inl e) = (\<not> lookup_error e)"
| "propagates (Inr v) = False"

text \<open>\<open>n\<close> calls in a row, and the number of requests to one URL in a trace.\<close>

fun run_calls :: "nat \<Rightarrow> ('s \<Rightarrow> 'r \<times> 's) \<Rightarrow> 's \<Rightarrow> 'r list \<times> 's" where
  "run_calls 0 f s = ([], s)"
| "run_calls (Suc n) f s =
     (case f s of (r, s1) \<Rightarrow> (case run_calls n f s1 of (rs, s2) \<Rightarrow> (r # rs, s2)))"

fun attempts :: "string \<Rightarrow> event list \<Rightarrow> nat" where
  "attempts url [] = 0"
| "attempts url (Download u q d # es) = (if u = url then Suc (attempts url es) else attempts url es)"
| "attempts url (GetCookies u # es) = attempts url es"

text \<open>Sample worlds: a fresh instance, and servers that answer in different ways.\<close>

definition fresh_ie :: mildom_ie where
  "fresh_ie = \<lparr>DISPATCHER_CONFIG = JNull, GUEST_ID = JNull, trace = [], guest_id_calls = 0\<rparr>"

definition sample_config :: json where
  "sample_config =
     JObj [(''location'', JStr ''JP''), (''country'', JStr ''Japan''), (''cluster'', JStr ''aws_japan'')]"

definition cached_ie :: mildom_ie where
  "cached_ie = fresh_ie\<lparr>DISPATCHER_CONFIG := sample_config\<rparr>"

text \<open>Every request is answered, but no answer carries a guest id and no cookie is set.\<close>

definition env_no_identity :: env where
  "env_no_identity =
     \<lparr>download_json = (\<lambda>n req. Some (JObj [(''data'', JStr ''Y2Zn''), (''body'', JObj [])])),
      b64decode = (\<lambda>d. Some d),
      parse_json = (\<lambda>raw. Some sample_config),
      get_cookies = (\<lambda>n url. []),
      clock = (\<lambda>n. ''2021-06-20T00:00:00.000Z''),
      user_agent = ''Mozilla/5.0'',
      random_choice = (\<lambda>n. 0)\<rparr>"

text \<open>The \<open>gid\<close> cookie is set.\<close>

definition env_with_cookie :: env where
  "env_with_cookie = env_no_identity\<lparr>get_cookies := (\<lambda>n url. [(''gid'', ''guest-1'')])\<rparr>"

text \<open>The dispatcher answers \<open>{}\<close>, valid JSON without \<open>data\<close>; the fallback host works.\<close>

definition env_no_data :: env where
  "env_no_data =
     env_no_identity\<lparr>download_json := (\<lambda>n req. if n = 0 then Some (JObj []) else Some sample_config)\<rparr>"

text \<open>No request is answered, without and with the \<open>gid\<close> cookie.\<close>

definition env_offline :: env where
  "env_offline = env_no_identity\<lparr>download_json := (\<lambda>n req. None)\<rparr>"

definition env_offline_cookie :: env where
  "env_offline_cookie = env_with_cookie\<lparr>download_json := (\<lambda>n req. None)\<rparr>"

text \<open>The dispatcher is unreachable; the fallback host works.\<close>

definition env_primary_down :: env where
  "env_primary_down =
     env_no_identity\<lparr>download_json := (\<lambda>n req. if n = 0 then None else Some sample_config)\<rparr>"

section \<open>Paginated listings (mildom.py, twitcasting.py)\<close>

text \<open>
  The loop of \<open>MildomUserVodIE._real_extract\<close>. \<open>api page\<close> is what \<open>_call_api\<close>
  returns for the playbackList request of that page (each page is requested once, so a
  function of the page number says all a run can see); \<open>str\<close> is Python's \<open>'%s' %\<close>
  formatting of a value. \<open>for x in reply\<close> walks the elements of a list, the keys of a
  dict and the characters of a string; anything else that is truthy is not iterable.
  \<open>fetched\<close> is not in the source: it records the page numbers requested.
\<close>

fun page_items :: "json \<Rightarrow> exn + json list" where
  "page_items (JArr xs) = Inr xs"
| "page_items (JObj kvs) = Inr (map (\<lambda>kv. JStr (fst kv)) kvs)"
| "page_items (JStr s) = Inr (map (\<lambda>c. JStr [c]) s)"
| "page_items _ = Inl TypeError"

fun playback_urls :: "(json \<Rightarrow> string) \<Rightarrow> string \<Rightarrow> json list \<Rightarrow> exn + string list" where
  "playback_urls str user [] = Inr []"
| "playback_urls str user (x # xs) =
     (case getitem x ''v_id'' of
        Inl e \<Rightarrow> Inl e
      | Inr v \<Rightarrow>
          (case playback_urls str user xs of
             Inl e \<Rightarrow> Inl e
           | Inr us \<Rightarrow> Inr ((''https://www.mildom.com/playback/'' @ user @ ''/'' @ str v) # us)))"

definition page_urls :: "(json \<Rightarrow> string) \<Rightarrow> string \<Rightarrow> json \<Rightarrow> exn + string list" where
  "page_urls str user reply =
     (case page_items reply of Inl e \<Rightarrow> Inl e | Inr xs \<Rightarrow> playback_urls str user xs)"

partial_function (option) vod_pages ::
  "(nat \<Rightarrow> exn + json) \<Rightarrow> (json \<Rightarrow> string) \<Rightarrow> string \<Rightarrow> nat \<Rightarrow> string list \<Rightarrow> nat list
     \<Rightarrow> ((exn + string list) \<times> nat list) option" where
  "vod_pages api str user page results fetched =
     (case api page of
        Inl e \<Rightarrow> Some (Inl e, fetched @ [page])
      | Inr reply \<Rightarrow>
          if \<not> truthy reply then Some (Inr results, fetched @ [page])
          else (case page_urls str user reply of
                  Inl e \<Rightarrow> Some (Inl e, fetched @ [page])
                | Inr us \<Rightarrow> vod_pages api str user (Suc page) (results @ us) (fetched @ [page])))"

text \<open>\<open>results = []\<close>, \<open>for page in itertools.count(1)\<close>.\<close>

definition MildomUserVod_results ::
  "(nat \<Rightarrow> exn + json) \<Rightarrow> (json \<Rightarrow> string) \<Rightarrow> string \<Rightarrow> ((exn + string list) \<times> nat list) option" where
  "MildomUserVod_results api str user = vod_pages api str user 1 [] []"

text \<open>
  Modelled from the spec: the results a handler returns (\<open>url_result\<close> and
  \<open>playlist_result\<close> of common.py are not among the sources), section 3's
  ExtractionResult: a media result with its info dict, a playlist, or a redirect with a
  target URL and an extractor hint. \<open>url_result(url)\<close> is a redirect without a hint.
\<close>

datatype extraction_result =
    MediaResult "(string \<times> json) list"
  | PlaylistResult "extraction_result list" string string
  | RedirectResult "string option" "string option"

definition url_result :: "string option \<Rightarrow> extraction_result" where
  "url_result url = RedirectResult url None"

text \<open>
  \<open>TwitCastingUserIE._entries\<close>. Parameters: \<open>_download_webpage\<close> for a page (\<open>None\<close>
  is an ExtractorError), the \<open>url\<close> groups that \<open>re.finditer\<close> finds for the thumbnail
  pattern, \<open>_search_regex\<close> for the link to the next page (\<open>default=None\<close>) and
  \<open>urljoin\<close> of utils.py. The generator has yielded \<open>yielded\<close> so far; it ends by
  returning (\<open>None\<close>) or by raising.
\<close>

record tc_env =
  tc_download_webpage :: "string \<Rightarrow> nat \<Rightarrow> string option"
  tc_thumbnail_links :: "string \<Rightarrow> string list"
  tc_next_link :: "string \<Rightarrow> nat \<Rightarrow> string \<Rightarrow> string option"
  urljoin :: "string \<Rightarrow> string option \<Rightarrow> string option"

definition page_entries :: "tc_env \<Rightarrow> string \<Rightarrow> string \<Rightarrow> extraction_result list" where
  "page_entries E base_url webpage =
     map (\<lambda>u. url_result (urljoin E base_url (Some u))) (tc_thumbnail_links E webpage)"

partial_function (option) TwitCastingUser_pages ::
  "tc_env \<Rightarrow> string \<Rightarrow> string \<Rightarrow> string \<Rightarrow> nat \<Rightarrow> extraction_result list
     \<Rightarrow> (exn option \<times> extraction_result list) option" where
  "TwitCastingUser_pages E uploader_id base_url next_url page_num yielded =
     (case tc_download_webpage E next_url page_num of
        None \<Rightarrow> Some (Some ExtractorError, yielded)
      | Some webpage \<Rightarrow>
          (case urljoin E base_url (tc_next_link E uploader_id page_num webpage) of
             None \<Rightarrow> Some (None, yielded @ page_entries E base_url webpage)
           | Some u \<Rightarrow>
               if u = [] then Some (None, yielded @ page_entries E base_url webpage)
               else TwitCastingUser_pages E uploader_id base_url u (Suc page_num)
                      (yielded @ page_entries E base_url webpage)))"

definition show_url :: "string \<Rightarrow> string" where
  "show_url uploader_id = ''https://twitcasting.tv/'' @ uploader_id @ ''/show''"

definition TwitCastingUser_entries ::
  "tc_env \<Rightarrow> string \<Rightarrow> (exn option \<times> extraction_result list) option" where
  "TwitCastingUser_entries E uploader_id =
     TwitCastingUser_pages E uploader_id (show_url uploader_id) (show_url uploader_id) 1 []"

text \<open>Sample listings. Three Mildom pages \<open>[[a, b], [c], []]\<close>:\<close>

definition vod_item :: "string \<Rightarrow> json" where
  "vod_item v = JObj [(''v_id'', JStr v)]"

definition three_pages :: "nat \<Rightarrow> exn + json" where
  "three_pages p =
     (if p = 1 then Inr (JArr [vod_item ''a'', vod_item ''b''])
      else if p = 2 then Inr (JArr [vod_item ''c''])
      else Inr (JArr []))"

definition three_urls :: "nat \<Rightarrow> string list" where
  "three_urls p =
     (if p = 1 then [''https://www.mildom.com/playback/10093333/a'',
                     ''https://www.mildom.com/playback/10093333/b'']
      else [''https://www.mildom.com/playback/10093333/c''])"

fun str_of :: "json \<Rightarrow> string" where
  "str_of (JStr s) = s"
| "str_of _ = ''?''"

text \<open>
  TwitCasting pages are stood for by their names. In \<open>tc_three_pages\<close> the pages hold
  \<open>[[a, b], [c], []]\<close> and the third has no link to a fourth. In \<open>tc_gap_pages\<close> the
  second page lists nothing but links to a third page, which lists one movie.
\<close>

definition tc_page_name :: "nat \<Rightarrow> string" where
  "tc_page_name n = (if n = 1 then ''P1'' else if n = 2 then ''P2'' else ''P3'')"

definition tc_page_url :: "nat \<Rightarrow> string" where
  "tc_page_url n =
     (if n = 1 then ''https://twitcasting.tv/u/show''
      else if n = 2 then ''https://twitcasting.tv/u/show/1-100''
      else ''https://twitcasting.tv/u/show/2-100'')"

definition tc_three_pages :: tc_env where
  "tc_three_pages =
     \<lparr>tc_download_webpage = (\<lambda>url n. Some (tc_page_name n)),
      tc_thumbnail_links = (\<lambda>page. if page = ''P1'' then [''/u/movie/1'', ''/u/movie/2'']
                                   else if page = ''P2'' then [''/u/movie/3''] else []),
      tc_next_link = (\<lambda>uploader n page. if page = ''P1'' then Some ''/u/show/1-100''
                                         else if page = ''P2'' then Some ''/u/show/2-100'' else None),
      urljoin = (\<lambda>base path. case path of None \<Rightarrow> None
                                | Some p \<Rightarrow> Some (''https://twitcasting.tv'' @ p))\<rparr>"

definition tc_gap_pages :: tc_env where
  "tc_gap_pages =
     tc_three_pages\<lparr>tc_thumbnail_links :=
        (\<lambda>page. if page = ''P1'' then [''/u/movie/1'']
                 else if page = ''P2'' then [] else [''/u/movie/2''])\<rparr>"

section \<open>TwitCasting movies and live redirects (twitcasting.py)\<close>

text \<open>
  \<open>TwitCastingIE._real_extract\<close>. Parameters: \<open>re.match(self._VALID_URL, url).groups()\<close>,
  the downloader's \<open>videopassword\<close>, and the helpers of common.py and utils.py, which
  are not among the sources: the page download (\<open>None\<close> is an ExtractorError), the
  searches in the page, which return a string or \<open>None\<close>, and the format extraction and
  sorting, which raise ExtractorError when they fail. The duration is computed with
  floating point numbers and is a parameter as a whole, as are view count and timestamp.
\<close>

record twitcasting_env =
  match_valid_url :: "string \<Rightarrow> (string \<times> string) option"
  videopassword :: "string option"
  download_webpage :: "string \<Rightarrow> (string \<times> string) list option \<Rightarrow> string option"
  html_search_meta :: "string list \<Rightarrow> string \<Rightarrow> string option"
  search_movie_playlist :: "string \<Rightarrow> string option"
  tc_parse_json :: "string \<Rightarrow> json option"
  search_movie_url :: "string \<Rightarrow> string option"
  extract_m3u8_formats :: "json \<Rightarrow> json list option"
  sort_formats :: "json list \<Rightarrow> json list option"
  og_search_thumbnail :: "string \<Rightarrow> string option"
  author_comment :: "string \<Rightarrow> string option"
  duration_of :: "json \<Rightarrow> string \<Rightarrow> json"
  view_count_of :: "string \<Rightarrow> json"
  timestamp_of :: "string \<Rightarrow> json"

text \<open>\<open>request_data\<close>: the POST fields when a non-empty password is given.\<close>

definition request_data :: "twitcasting_env \<Rightarrow> (string \<times> string) list option" where
  "request_data E =
     (case videopassword E of
        None \<Rightarrow> None
      | Some p \<Rightarrow> if p = [] then None else Some [(''password'', p)])"

text \<open>
  The getter of \<open>video_js_data\<close>: \<open>_parse_json(_search_regex(..., default=None),
  video_id)["2"][0]\<close>. Without a match \<open>json.loads(None)\<close> raises TypeError.
\<close>

definition movie_playlist_entry :: "twitcasting_env \<Rightarrow> string \<Rightarrow> exn + json" where
  "movie_playlist_entry E webpage =
     (case search_movie_playlist E webpage of
        None \<Rightarrow> Inl TypeError
      | Some raw \<Rightarrow>
          (case tc_parse_json E raw of
             None \<Rightarrow> Inl ExtractorError
           | Some j \<Rightarrow> (case getitem j ''2'' of Inl e \<Rightarrow> Inl e | Inr l \<Rightarrow> getindex0 l)))"

text \<open>\<open>video_js_data['source']['url']\<close>.\<close>

definition js_source_url :: "json \<Rightarrow> exn + json" where
  "js_source_url video_js_data =
     (case getitem video_js_data ''source'' of Inl e \<Rightarrow> Inl e | Inr src \<Rightarrow> getitem src ''url'')"

definition hls_format :: "json \<Rightarrow> json" where
  "hls_format m3u8_url =
     JObj [(''url'', m3u8_url), (''format_id'', JStr ''hls''), (''ext'', JStr ''mp4''),
           (''protocol'', JStr ''m3u8''),
           (''http_headers'', JObj [(''Accept'', JStr ''*/*''),
                                    (''Origin'', JStr ''https://twitcasting.tv''),
                                    (''Referer'', JStr ''https://twitcasting.tv/'')]),
           (''input_params'', JArr [JStr ''-re''])]"

text \<open>The text \<open>data-status=\<close>, a double quote, \<open>online\<close>, a double quote.\<close>

definition online_marker :: string where
  "online_marker = ''data-status='' @ [CHR 0x22] @ ''online'' @ [CHR 0x22]"

definition TwitCasting_real_extract :: "twitcasting_env \<Rightarrow> string \<Rightarrow> exn + (string \<times> json) list" where
  "TwitCasting_real_extract E url =
     (case match_valid_url E url of
        None \<Rightarrow> Inl AttributeError
      | Some (uploader_id, video_id) \<Rightarrow>
          (case download_webpage E url (request_data E) of
             None \<Rightarrow> Inl ExtractorError
           | Some webpage \<Rightarrow>
               (case fst (try_get webpage
                      [pure_getter (\<lambda>x. Inr (opt_str (html_search_meta E [''og:title'', ''twitter:title''] x)))]
                      is_str ()) of
                  Inl e \<Rightarrow> Inl e
                | Inr title \<Rightarrow>
                    if \<not> truthy title then Inl ExtractorError
                    else
                      (case fst (try_get webpage [pure_getter (movie_playlist_entry E)] is_dict ()) of
                         Inl e \<Rightarrow> Inl e
                       | Inr js \<Rightarrow>
                           (let video_js_data = py_or js (JObj []);
                                is_live = contains online_marker webpage
                            in
                            case fst (try_get webpage
                                   [pure_getter (\<lambda>x. Inr (opt_str (search_movie_url E x))),
                                    pure_getter (\<lambda>x. js_source_url video_js_data),
                                    pure_getter (\<lambda>x. Inr (if is_live
                                       then JStr (''https://twitcasting.tv/'' @ uploader_id @ ''/metastream.m3u8'')
                                       else JNull))]
                                   is_str ()) of
                              Inl e \<Rightarrow> Inl e
                            | Inr m3u8_url \<Rightarrow>
                                (case (if is_live then
                                         (case extract_m3u8_formats E m3u8_url of
                                            None \<Rightarrow> None
                                          | Some fs \<Rightarrow> sort_formats E fs)
                                       else Some [hls_format m3u8_url]) of
                                   None \<Rightarrow> Inl ExtractorError
                                 | Some formats \<Rightarrow>
                                     Inr [(''id'', JStr video_id),
                                          (''title'', title),
                                          (''description'',
                                             py_or (opt_str (author_comment E webpage))
                                               (opt_str (html_search_meta E
                                                  [''description'', ''og:description'', ''twitter:description'']
                                                  webpage))),
                                          (''thumbnail'',
                                             py_or (dict_get video_js_data ''thumbnailUrl'')
                                               (opt_str (og_search_thumbnail E webpage))),
                                          (''timestamp'', timestamp_of E webpage),
                                          (''uploader'', JStr uploader_id),
                                          (''uploader_id'', JStr uploader_id),
                                          (''duration'', duration_of E video_js_data webpage),
                                          (''view_count'', view_count_of E webpage),
                                          (''formats'', JArr formats),
                                          (''is_live'', JBool True)]))))))"

text \<open>An archived movie: the page does not say \<open>online\<close>.\<close>

definition offline_page :: string where
  "offline_page = ''<html>archived movie</html>''"

definition offline_env :: twitcasting_env where
  "offline_env =
     \<lparr>match_valid_url = (\<lambda>url. Some (''ivetesangalo'', ''2357609'')),
      videopassword = None,
      download_webpage = (\<lambda>url data. Some offline_page),
      html_search_meta = (\<lambda>names page. Some ''Live #2357609''),
      search_movie_playlist = (\<lambda>page. None),
      tc_parse_json = (\<lambda>raw. None),
      search_movie_url = (\<lambda>page. Some ''https://dl.twitcasting.tv/2357609.m3u8''),
      extract_m3u8_formats = (\<lambda>u. None),
      sort_formats = (\<lambda>fs. Some fs),
      og_search_thumbnail = (\<lambda>page. None),
      author_comment = (\<lambda>page. None),
      duration_of = (\<lambda>js page. JNum 32),
      view_count_of = (\<lambda>page. JNull),
      timestamp_of = (\<lambda>page. JNum 1314010824)\<rparr>"

definition offline_info :: "(string \<times> json) list" where
  "offline_info =
     [(''id'', JStr ''2357609''), (''title'', JStr ''Live #2357609''),
      (''description'', JStr ''Live #2357609''), (''thumbnail'', JNull),
      (''timestamp'', JNum 1314010824), (''uploader'', JStr ''ivetesangalo''),
      (''uploader_id'', JStr ''ivetesangalo''), (''duration'', JNum 32),
      (''view_count'', JNull),
      (''formats'', JArr [hls_format (JStr ''https://dl.twitcasting.tv/2357609.m3u8'')]),
      (''is_live'', JBool True)]"



section \<open>URL patterns of the NHK for School extractors (nhk.py)\<close>

text \<open>
  The fragment of Python regular expressions that the two \<open>_VALID_URL\<close> patterns use:
  literal text, \<open>x?\<close>, an alternation of literal words
  (\<open>'|'.join(re.escape(s) for s in KNOWN_SUBJECTS)\<close>; the subjects are plain lower-case
  words, which \<open>re.escape\<close> leaves alone), concatenation and \<open>[...]+\<close> over a character
  class. Groups only capture and are left out. \<open>rems r s\<close> lists, in the order a
  backtracking matcher tries them, the rests of \<open>s\<close> after each way \<open>r\<close> can match at
  its start; \<open>re.match\<close> succeeds when there is one.
\<close>

datatype rx =
    Lit string
  | Opt rx
  | OneOf "string list"
  | PlusCls "char list"
  | Seq rx rx

fun plus_cls :: "char list \<Rightarrow> string \<Rightarrow> string list" where
  "plus_cls cls [] = []"
| "plus_cls cls (c # s) = (if c \<in> set cls then plus_cls cls s @ [s] else [])"

fun rems :: "rx \<Rightarrow> string \<Rightarrow> string list" where
  "rems (Lit l) s = (if starts_with l s then [drop (length l) s] else [])"
| "rems (Opt r) s = rems r s @ [s]"
| "rems (OneOf ws) s = map (\<lambda>w. drop (length w) s) (filter (\<lambda>w. starts_with w s) ws)"
| "rems (PlusCls cls) s = plus_cls cls s"
| "rems (Seq a b) s = concat (map (rems b) (rems a s))"

definition re_match :: "rx \<Rightarrow> string \<Rightarrow> bool" where
  "re_match r s = (rems r s \<noteq> [])"

definition KNOWN_SUBJECTS :: "string list" where
  "KNOWN_SUBJECTS =
     [''rika'', ''syakai'', ''kokugo'', ''sansuu'', ''seikatsu'', ''doutoku'', ''ongaku'',
      ''taiiku'', ''zukou'', ''gijutsu'', ''katei'', ''sougou'', ''eigo'', ''tokkatsu'',
      ''tokushi'', ''sonota'']"

text \<open>\<open>https?://www\.nhk\.or\.jp/school/\<close>, the head both patterns share.\<close>

definition school_head :: "rx \<Rightarrow> rx" where
  "school_head r = Seq (Lit ''http'') (Seq (Opt (Lit ''s'')) (Seq (Lit ''://www.nhk.or.jp/school/'') r))"

text \<open>\<open>NhkForSchoolSubjectIE._VALID_URL\<close>.\<close>

definition Subject_VALID_URL :: rx where
  "Subject_VALID_URL = school_head (OneOf KNOWN_SUBJECTS)"

text \<open>\<open>NhkForSchoolProgramListIE._VALID_URL\<close>, with the class \<open>[a-zA-Z0-9_-]\<close>.\<close>

definition id_chars :: "char list" where
  "id_chars = ''abcdefghijklmnopqrstuvwxyzABCDEFGHIJKLMNOPQRSTUVWXYZ0123456789_-''"

definition ProgramList_VALID_URL :: rx where
  "ProgramList_VALID_URL =
     school_head (Seq (OneOf KNOWN_SUBJECTS) (Seq (Lit ''/'') (PlusCls id_chars)))"

text \<open>
  Modelled from the spec: \<open>InfoExtractor.suitable\<close> of the base class (common.py is not
  among the sources), the descriptor's "URL-matching predicate": the URL matches the
  class's \<open>_VALID_URL\<close> at its start.
\<close>

definition base_suitable :: "rx \<Rightarrow> string \<Rightarrow> bool" where
  "base_suitable valid_url url = re_match valid_url url"

text \<open>\<open>NhkForSchoolProgramListIE\<close> inherits \<open>suitable\<close>.\<close>

definition ProgramList_suitable :: "string \<Rightarrow> bool" where
  "ProgramList_suitable url = base_suitable ProgramList_VALID_URL url"

text \<open>
  \<open>NhkForSchoolSubjectIE.suitable\<close>:
  \<open>super().suitable(url) and not NhkForSchoolProgramListIE.suitable(url)\<close>.
\<close>

definition Subject_suitable :: "string \<Rightarrow> bool" where
  "Subject_suitable url = (base_suitable Subject_VALID_URL url \<and> \<not> ProgramList_suitable url)"

section \<open>The extractor list (extractor/__init__.py) and resolution\<close>

text \<open>
  What the module body of \<open>extractor/__init__.py\<close> sees when it runs: whether the
  environment variable \<open>YTDLP_NO_LAZY_EXTRACTORS\<close> is set, the \<open>_ALL_CLASSES\<close> of the
  generated module \<open>lazy_extractors\<close> (\<open>None\<close> when its import fails), the module's
  \<open>globals()\<close> after \<open>from .extractors import *\<close> in dict order, and the dict that
  \<open>load_plugins\<close> returns. \<open>'k\<close> is the type of class objects.
\<close>

record 'k extractor_module =
  YTDLP_NO_LAZY_EXTRACTORS :: bool
  lazy_extractors :: "'k list option"
  module_globals :: "(string \<times> 'k) list"
  load_plugins :: "(string \<times> 'k) list"

definition LAZY_LOADER :: "'k extractor_module \<Rightarrow> bool" where
  "LAZY_LOADER m = (\<not> YTDLP_NO_LAZY_EXTRACTORS m \<and> lazy_extractors m \<noteq> None)"

text \<open>
  \<open>_ALL_CLASSES\<close> before the plugins are added. \<open>GenericIE\<close> is looked up by name; the
  module fails to load (\<open>None\<close>) when the name is not bound.
\<close>

definition builtin_classes :: "'k extractor_module \<Rightarrow> 'k list option" where
  "builtin_classes m =
     (if \<not> LAZY_LOADER m then
        (case map_of (module_globals m) ''GenericIE'' of
           None \<Rightarrow> None
         | Some generic \<Rightarrow>
             Some (map snd (filter (\<lambda>(name, klass). ends_with ''IE'' name
                                      \<and> name \<notin> set [''GenericIE'', ''StreamlinkIE''])
                            (module_globals m)) @ [generic]))
      else lazy_extractors m)"

text \<open>\<open>_ALL_CLASSES = list(_PLUGIN_CLASSES.values()) + _ALL_CLASSES\<close>.\<close>

definition ALL_CLASSES :: "'k extractor_module \<Rightarrow> 'k list option" where
  "ALL_CLASSES m =
     (case builtin_classes m of
        None \<Rightarrow> None
      | Some classes \<Rightarrow> Some (map snd (load_plugins m) @ classes))"

definition gen_extractor_classes :: "'k extractor_module \<Rightarrow> 'k list option" where
  "gen_extractor_classes m = ALL_CLASSES m"

text \<open>
  Modelled from the spec: resolution of a URL (YoutubeDL.py is not among the sources),
  section 4.4: "scans descriptors in order, returns the first whose predicate matches;
  NotFound if none match".
\<close>

definition resolve :: "('k \<Rightarrow> string \<Rightarrow> bool) \<Rightarrow> 'k list \<Rightarrow> string \<Rightarrow> 'k option" where
  "resolve suit descriptors url = find (\<lambda>d. suit d url) descriptors"

definition sample_module :: "nat extractor_module" where
  "sample_module =
     \<lparr>YTDLP_NO_LAZY_EXTRACTORS = True, lazy_extractors = None,
      module_globals = [(''os'', 0), (''AbcIE'', 1), (''GenericIE'', 9), (''StreamlinkIE'', 7),
                        (''ZdfIE'', 2), (''load_plugins'', 3)],
      load_plugins = [(''SamplePluginIE'', 5)]\<rparr>"

section \<open>The extraction pipeline\<close>

text \<open>
  Modelled from the spec: the pipeline that runs a handler and follows its redirects
  (YoutubeDL.py is not among the sources), section 4.5 as the source has it: "Handler
  returns RedirectResult: re-run Start with the new URL/hint", and "the source has no
  such guard today" of the recursion-depth guard. A media or playlist result ends the
  run; a handler's failure is reported as ExtractionFailed; a URL that no descriptor
  matches, or a redirect without a URL, is NoMatch. These errors and RedirectLoop are
  section 7's; nothing in the sources raises RedirectLoop. Following a redirect is a
  nested run, and Python ends a nesting deeper than the interpreter allows with
  RecursionError: \<open>depth\<close> is the number of nested runs the interpreter still allows.
\<close>

datatype pipeline_error = NoMatch | ExtractionFailed exn | RedirectLoop | RecursionError









section \<open>The extractor list: the catch-all stays last\<close>

lemma find_append:
  "find P (xs @ ys) = (case find P xs of Some x \<Rightarrow> Some x | None \<Rightarrow> find P ys)"
  by (induction xs) auto

text \<open>
  C1. \<open>GenericIE\<close> is the last entry of the list that \<open>gen_extractor_classes\<close> returns,
  whatever the order of the names in the module and of the plugins; the plugin classes
  come first. So first-match resolution returns the first match among the entries before
  the catch-all when there is one, and the catch-all only when there is none. When the
  generated module \<open>lazy_extractors\<close> supplies the built-in list, the list is taken as it
  is, and the statement is for a generated list that ends with \<open>GenericIE\<close>.
\<close>

theorem catch_all_is_last:
  assumes "gen_extractor_classes m = Some classes"
    and "map_of (module_globals m) ''GenericIE'' = Some generic"
    and "LAZY_LOADER m \<longrightarrow> (\<exists>front. lazy_extractors m = Some (front @ [generic]))"
  shows "classes \<noteq> [] \<and> last classes = generic
         \<and> (\<exists>rest. classes = map snd (load_plugins m) @ rest @ [generic])
         \<and> (\<forall>url. resolve suit classes url =
               (case find (\<lambda>k. suit k url) (butlast classes) of
                  Some k \<Rightarrow> Some k
                | None \<Rightarrow> if suit generic url then Some generic else None))"
proof -
  have "\<exists>rest. classes = map snd (load_plugins m) @ rest @ [generic]"
    using assms
    by (auto simp: gen_extractor_classes_def ALL_CLASSES_def builtin_classes_def
        split: option.splits if_splits)
  then obtain rest where c: "classes = (map snd (load_plugins m) @ rest) @ [generic]" by auto
  have b: "butlast classes = map snd (load_plugins m) @ rest" unfolding c by (rule butlast_snoc)
  have r: "resolve suit classes url =
               (case find (\<lambda>k. suit k url) (butlast classes) of
                  Some k \<Rightarrow> Some k
                | None \<Rightarrow> if suit generic url then Some generic else None)" for url
    unfolding b unfolding c resolve_def find_append [of _ "map snd (load_plugins m) @ rest"]
    by (simp split: option.splits)
  from c r show ?thesis by auto
qed

theorem catch_all_is_last_witness:
  "gen_extractor_classes sample_module = Some [5, 1, 2, 9]
   \<and> map_of (module_globals sample_module) ''GenericIE'' = Some 9
   \<and> \<not> LAZY_LOADER sample_module
   \<and> last [5, 1, 2, 9 :: nat] = 9
   \<and> resolve (\<lambda>k url. k = 2 \<or> k = 9) [5, 1, 2, 9 :: nat] ''https://www.zdf.de/x'' = Some 2"
proof -
  have g: "gen_extractor_classes sample_module = Some [5, 1, 2, 9]"
    by (simp add: gen_extractor_classes_def ALL_CLASSES_def builtin_classes_def LAZY_LOADER_def
        sample_module_def ends_with_def)
  have k: "map_of (module_globals sample_module) ''GenericIE'' = Some 9"
    by (simp add: sample_module_def)
  have l: "\<not> LAZY_LOADER sample_module" by (simp add: LAZY_LOADER_def sample_module_def)
  from catch_all_is_last [OF g k, of "\<lambda>k url. k = 2 \<or> k = 9"] l g k show ?thesis
    by simp
qed

section \<open>The Mildom base extractor: frames and traces\<close>

lemmas mildom_eval =
  guest_id.simps call_api.simps common_queries.simps fetch_dispatcher_config_def primary_config_def
  primary_request_def fallback_request_def dispatcher_payload_def cookie_gid_def emit_def now_def
  iso_timestamp_def mildom_proxy_host_def MILDOM_PROXY_HOSTS_def lang_code_def dict_update_def
  py_or_def Let_def

lemma getitem_error: "getitem j k = Inl e \<Longrightarrow> e = KeyError \<or> e = TypeError"
  by (cases j) (auto split: option.splits)

lemma primary_config_frame:
  "primary_config E s = (r, s1) \<Longrightarrow> s1 = emit (primary_request E s) s"
  by (auto simp: primary_config_def Let_def split: option.splits sum.splits json.splits)

lemma fetch_dispatcher_config_frame:
  "fetch_dispatcher_config E s = (r, s') \<Longrightarrow>
     GUEST_ID s' = GUEST_ID s \<and> guest_id_calls s' = guest_id_calls s"
  by (auto simp: fetch_dispatcher_config_def Let_def emit_def dest!: primary_config_frame
      split: if_splits prod.splits sum.splits option.splits)

lemma map_of_dict_update:
  "map_of (dict_update r q) k = (case map_of (rev q) k of Some v \<Rightarrow> Some v | None \<Rightarrow> map_of r k)"
  unfolding dict_update_def
proof (induction q arbitrary: r)
  case Nil
  show ?case by simp
next
  case (Cons a q)
  obtain k' v' where a: "a = (k', v')" by (cases a)
  show ?case
    by (simp add: a Cons update_conv' map_of_append map_add_def split: option.splits)
qed

lemma map_of_rev_None: "k \<notin> fst ` set q \<Longrightarrow> map_of (rev q) k = None"
  by (simp add: map_of_eq_None_iff)

lemma common_queries_init_frame:
  "common_queries E q True s = (r, s') \<Longrightarrow>
     GUEST_ID s' = GUEST_ID s \<and> guest_id_calls s' = guest_id_calls s"
  by (auto simp: common_queries.simps dest!: fetch_dispatcher_config_frame
      split: prod.splits sum.splits)

lemma common_queries_init_guest:
  "common_queries E q True s = (Inr qq, s') \<Longrightarrow> ''__guest_id'' \<notin> fst ` set q \<Longrightarrow>
     map_of qq ''__guest_id'' = Some (JStr '''')"
  by (auto simp: common_queries.simps map_of_dict_update map_of_rev_None
      split: prod.splits sum.splits)

lemma call_api_init_frame:
  "call_api E url q True s = (r, s') \<Longrightarrow>
     GUEST_ID s' = GUEST_ID s \<and> guest_id_calls s' = guest_id_calls s"
  by (auto simp: call_api.simps emit_def dest!: common_queries_init_frame
      split: prod.splits sum.splits option.splits)

lemma fetch_dispatcher_config_trace:
  "\<exists>evs. trace (snd (fetch_dispatcher_config E s)) = trace s @ evs"
  by (auto simp: fetch_dispatcher_config_def Let_def emit_def dest!: primary_config_frame
      split: prod.splits sum.splits option.splits)

lemma common_queries_init_trace:
  "\<exists>evs. trace (snd (common_queries E q True s)) = trace s @ evs"
  using fetch_dispatcher_config_trace [of E s]
  by (auto simp: common_queries.simps split: prod.splits sum.splits)

lemma call_api_init_trace:
  "\<exists>evs. trace (snd (call_api E url q True s)) = trace s @ evs"
  using common_queries_init_trace [of E q s]
  by (auto simp: call_api.simps emit_def split: prod.splits sum.splits option.splits)

lemma h5init_trace:
  "\<exists>evs. trace (snd (h5init_guest_id E s)) = trace s @ evs"
  using call_api_init_trace [of E "''https://cloudac.mildom.com/nonolive/gappserv/guest/h5init''" "[]" s]
  by (auto simp: h5init_guest_id_def split: prod.splits sum.splits)

lemma guest_id_unfold:
  "guest_id E s =
     (if truthy (GUEST_ID s) then (Inr (GUEST_ID s), guest_id_entry s)
      else
        (case try_get ()
                [\<lambda>x. h5init_guest_id E,
                 \<lambda>x. cookie_gid E ''https://www.mildom.com'',
                 \<lambda>x. cookie_gid E ''https://m.mildom.com'']
                is_str (guest_id_entry s) of
           (Inl e, s1) \<Rightarrow> (Inl e, s1)
         | (Inr v, s1) \<Rightarrow> (Inr (py_or v (JStr '''')), s1\<lparr>GUEST_ID := py_or v (JStr '''')\<rparr>)))"
  unfolding guest_id.simps [of E s] h5init_guest_id_def [abs_def] guest_id_entry_def Let_def
  by simp

lemma is_str_py_or_null: "is_str (py_or v JNull) \<Longrightarrow> py_or (py_or v JNull) d = py_or v JNull"
  by (cases v) (auto simp: py_or_def)

lemma h5init_usable:
  "h5init_guest_id E w = (Inr v, w') \<Longrightarrow> is_str v \<Longrightarrow> py_or v d = v"
  by (auto simp: h5init_guest_id_def is_str_py_or_null split: prod.splits sum.splits)

lemma guest_id_cases:
  assumes "\<not> truthy (GUEST_ID s)"
    and "h5init_guest_id E (guest_id_entry s) = (a, sa)"
    and "guest_id E s = (r, s')"
  shows
    "(if usable a \<or> propagates a then r = a \<and> trace s' = trace sa
      else (case map_of (get_cookies E (now sa) ''https://www.mildom.com'') ''gid'' of
              Some c \<Rightarrow> r = Inr (JStr c) \<and> trace s' = trace sa @ [GetCookies ''https://www.mildom.com'']
            | None \<Rightarrow>
                trace s' = trace sa @ [GetCookies ''https://www.mildom.com'', GetCookies ''https://m.mildom.com'']
                \<and> r = Inr (case map_of (get_cookies E (Suc (now sa)) ''https://m.mildom.com'') ''gid'' of
                           Some c \<Rightarrow> JStr c | None \<Rightarrow> JStr '''')))"
proof (cases a)
  case (Inl e)
  with assms show ?thesis
    by (auto simp: guest_id_unfold cookie_gid_def emit_def now_def py_or_def
        split: option.splits)
next
  case (Inr v)
  show ?thesis
  proof (cases "usable a")
    case True
    then have v: "v \<noteq> JNull" "is_str v" using Inr by auto
    from h5init_usable [OF assms(2) [unfolded Inr] v(2)] have "py_or v (JStr '''') = v" .
    with assms True Inr v show ?thesis
      by (auto simp: guest_id_unfold)
  next
    case False
    with assms Inr show ?thesis
      by (auto simp: guest_id_unfold cookie_gid_def emit_def now_def py_or_def
          split: option.splits)
  qed
qed

lemma try_get_frame:
  assumes "\<And>g w r w'. g \<in> set gs \<Longrightarrow> g src w = (r, w') \<Longrightarrow> f w' = f w"
  shows "f (snd (try_get src gs expected w)) = f w"
  using assms
proof (induction gs arbitrary: w)
  case Nil
  show ?case by simp
next
  case (Cons g gs)
  obtain r w' where g: "g src w = (r, w')" by (cases "g src w")
  from Cons.prems [of g w r w'] g have fw: "f w' = f w" by simp
  have ih: "f (snd (try_get src gs expected w')) = f w'"
    using Cons.prems by (intro Cons.IH) auto
  show ?case
    using g fw ih by (cases r) auto
qed

lemma guest_id_counts: "guest_id_calls (snd (guest_id E s)) = Suc (guest_id_calls s)"
proof -
  have h5: "\<And>w r w'. h5init_guest_id E w = (r, w') \<Longrightarrow> guest_id_calls w' = guest_id_calls w"
    by (auto simp: h5init_guest_id_def dest!: call_api_init_frame split: prod.splits sum.splits)
  have ck: "\<And>u w r w'. cookie_gid E u w = (r, w') \<Longrightarrow> guest_id_calls w' = guest_id_calls w"
    by (auto simp: cookie_gid_def emit_def split: option.splits)
  have t: "guest_id_calls (snd (try_get ()
                [\<lambda>x. h5init_guest_id E,
                 \<lambda>x. cookie_gid E ''https://www.mildom.com'',
                 \<lambda>x. cookie_gid E ''https://m.mildom.com'']
                is_str (guest_id_entry s))) = guest_id_calls (guest_id_entry s)"
    by (rule try_get_frame) (auto dest: h5 ck)
  obtain r s1 where tg: "try_get ()
                [\<lambda>x. h5init_guest_id E,
                 \<lambda>x. cookie_gid E ''https://www.mildom.com'',
                 \<lambda>x. cookie_gid E ''https://m.mildom.com'']
                is_str (guest_id_entry s) = (r, s1)"
    by (cases "try_get ()
                [\<lambda>x. h5init_guest_id E,
                 \<lambda>x. cookie_gid E ''https://www.mildom.com'',
                 \<lambda>x. cookie_gid E ''https://m.mildom.com'']
                is_str (guest_id_entry s)")
  from t have s1: "guest_id_calls s1 = Suc (guest_id_calls s)"
    unfolding tg by (simp add: guest_id_entry_def)
  show ?thesis
    unfolding guest_id_unfold tg using s1
    by (cases r) (simp_all add: guest_id_entry_def)
qed

lemma fetch_cached:
  "truthy (DISPATCHER_CONFIG s) \<Longrightarrow> fetch_dispatcher_config E s = (Inr (DISPATCHER_CONFIG s), s)"
  by (simp add: fetch_dispatcher_config_def)

lemma fetch_stores:
  "fetch_dispatcher_config E s = (Inr dc, s1) \<Longrightarrow> DISPATCHER_CONFIG s1 = dc"
  by (auto simp: fetch_dispatcher_config_def Let_def split: if_splits prod.splits sum.splits option.splits)

lemma guest_id_cached:
  "truthy (GUEST_ID s) \<Longrightarrow> guest_id E s = (Inr (GUEST_ID s), guest_id_entry s)"
  by (simp add: guest_id_unfold)

lemma guest_id_stores:
  "guest_id E s = (Inr g, s1) \<Longrightarrow> GUEST_ID s1 = g"
  by (auto simp: guest_id_unfold guest_id_entry_def split: if_splits prod.splits sum.splits)

lemma run_calls_fetch_cached:
  "truthy (DISPATCHER_CONFIG s) \<Longrightarrow>
     run_calls n (fetch_dispatcher_config E) s = (replicate n (Inr (DISPATCHER_CONFIG s)), s)"
  by (induction n) (simp_all add: fetch_cached)

lemma run_calls_guest_cached:
  "truthy (GUEST_ID s) \<Longrightarrow>
     run_calls n (guest_id E) s =
       (replicate n (Inr (GUEST_ID s)), s\<lparr>guest_id_calls := guest_id_calls s + n\<rparr>)"
proof (induction n arbitrary: s)
  case 0
  show ?case by simp
next
  case (Suc n)
  have "truthy (GUEST_ID (guest_id_entry s))" using Suc.prems by (simp add: guest_id_entry_def)
  from Suc.IH [OF this] Suc.prems show ?case
    by (simp add: guest_id_cached guest_id_entry_def)
qed

section \<open>Memoization of the dispatcher config and of the guest id\<close>

text \<open>
  C2 as stated fails. With a server whose answers carry no guest id and with no \<open>gid\<close>
  cookie, \<open>guest_id\<close> returns the empty string and stores it; the empty string is falsy, so
  the test \<open>if self._GUEST_ID\<close> fails on the next call, which sends the h5init request
  again.
\<close>

theorem empty_guest_id_is_fetched_again:
  "fst (guest_id env_no_identity fresh_ie) = Inr (JStr '''')
   \<and> attempts h5init_url (trace (snd (guest_id env_no_identity fresh_ie))) = 1
   \<and> attempts h5init_url
       (trace (snd (guest_id env_no_identity (snd (guest_id env_no_identity fresh_ie))))) = 2"
  by (simp add: mildom_eval env_no_identity_def fresh_ie_def sample_config_def h5init_url_def)

text \<open>
  C2, amended. On one extractor instance, once \<open>_fetch_dispatcher_config\<close> has returned
  a truthy config, any number \<open>n\<close> of further calls return that config and leave the
  instance as it is, so they make no request; once \<open>guest_id\<close> has returned a non-empty
  id, \<open>n\<close> further calls return that id, and add nothing to the trace (no request, no
  cookie lookup). This holds whatever the servers would answer later (\<open>E'\<close>).
\<close>

theorem memoized_after_first_success:
  "(fetch_dispatcher_config E s = (Inr dc, s1) \<and> truthy dc \<longrightarrow>
      run_calls n (fetch_dispatcher_config E') s1 = (replicate n (Inr dc), s1))
   \<and> (guest_id E s = (Inr g, s1) \<and> truthy g \<longrightarrow>
        fst (run_calls n (guest_id E') s1) = replicate n (Inr g)
        \<and> trace (snd (run_calls n (guest_id E') s1)) = trace s1
        \<and> GUEST_ID (snd (run_calls n (guest_id E') s1)) = g
        \<and> DISPATCHER_CONFIG (snd (run_calls n (guest_id E') s1)) = DISPATCHER_CONFIG s1)"
proof (intro conjI impI)
  assume a: "fetch_dispatcher_config E s = (Inr dc, s1) \<and> truthy dc"
  with fetch_stores [of E s dc s1] have "truthy (DISPATCHER_CONFIG s1)" "DISPATCHER_CONFIG s1 = dc" by auto
  with run_calls_fetch_cached [of s1 n E']
  show "run_calls n (fetch_dispatcher_config E') s1 = (replicate n (Inr dc), s1)" by simp
next
  assume a: "guest_id E s = (Inr g, s1) \<and> truthy g"
  with guest_id_stores [of E s g s1] have t: "truthy (GUEST_ID s1)" and g: "GUEST_ID s1 = g" by auto
  note r = run_calls_guest_cached [OF t, of n E']
  show "fst (run_calls n (guest_id E') s1) = replicate n (Inr g)" by (simp add: r g)
  show "trace (snd (run_calls n (guest_id E') s1)) = trace s1" by (simp add: r)
  show "GUEST_ID (snd (run_calls n (guest_id E') s1)) = g" by (simp add: r g)
  show "DISPATCHER_CONFIG (snd (run_calls n (guest_id E') s1)) = DISPATCHER_CONFIG s1" by (simp add: r)
qed

theorem memoized_after_first_success_witness:
  "fetch_dispatcher_config env_with_cookie fresh_ie
     = (Inr sample_config, snd (fetch_dispatcher_config env_with_cookie fresh_ie))
   \<and> truthy sample_config
   \<and> run_calls 3 (fetch_dispatcher_config env_no_data) (snd (fetch_dispatcher_config env_with_cookie fresh_ie))
       = ([Inr sample_config, Inr sample_config, Inr sample_config],
          snd (fetch_dispatcher_config env_with_cookie fresh_ie))
   \<and> guest_id env_with_cookie fresh_ie = (Inr (JStr ''guest-1''), snd (guest_id env_with_cookie fresh_ie))
   \<and> truthy (JStr ''guest-1'')
   \<and> fst (run_calls 3 (guest_id env_no_data) (snd (guest_id env_with_cookie fresh_ie)))
       = [Inr (JStr ''guest-1''), Inr (JStr ''guest-1''), Inr (JStr ''guest-1'')]
   \<and> trace (snd (run_calls 3 (guest_id env_no_data) (snd (guest_id env_with_cookie fresh_ie))))
       = trace (snd (guest_id env_with_cookie fresh_ie))"
proof -
  have f: "fetch_dispatcher_config env_with_cookie fresh_ie
     = (Inr sample_config, snd (fetch_dispatcher_config env_with_cookie fresh_ie))"
    by (simp add: mildom_eval env_with_cookie_def env_no_identity_def fresh_ie_def)
  have t: "truthy sample_config" by (simp add: sample_config_def)
  have g: "guest_id env_with_cookie fresh_ie = (Inr (JStr ''guest-1''), snd (guest_id env_with_cookie fresh_ie))"
    by (simp add: mildom_eval env_with_cookie_def env_no_identity_def fresh_ie_def sample_config_def)
  have t': "truthy (JStr ''guest-1'')" by simp
  have r3: "replicate 3 x = [x, x, x]" for x :: "exn + json" by (simp add: numeral_3_eq_3)
  from memoized_after_first_success [of env_with_cookie fresh_ie sample_config
      "snd (fetch_dispatcher_config env_with_cookie fresh_ie)" 3 env_no_data "JStr ''guest-1''"]
    memoized_after_first_success [of env_with_cookie fresh_ie sample_config
      "snd (guest_id env_with_cookie fresh_ie)" 3 env_no_data "JStr ''guest-1''"]
    f t g t' show ?thesis
    by (simp add: r3)
qed

section \<open>The guest id: three sources in order, and the empty string\<close>

text \<open>
  C3 as stated fails: \<open>guest_id\<close> can fail. When no request is answered, the h5init
  attempt raises ExtractorError (already the dispatcher lookup inside it does), which
  \<open>try_get\<close> lets through: \<open>guest_id\<close> raises instead of returning the empty string, and
  it does so also when the \<open>gid\<close> cookie is set, without looking at the cookies.
\<close>

theorem guest_id_raises_when_offline:
  "fst (guest_id env_offline fresh_ie) = Inl ExtractorError
   \<and> fst (guest_id env_offline_cookie fresh_ie) = Inl ExtractorError
   \<and> attempts h5init_url (trace (snd (guest_id env_offline_cookie fresh_ie))) = 0
   \<and> trace (snd (guest_id env_offline_cookie fresh_ie))
       = [primary_request env_offline_cookie fresh_ie,
          fallback_request env_offline_cookie (snd (primary_config env_offline_cookie fresh_ie))]"
  by (simp add: mildom_eval env_offline_def env_offline_cookie_def env_with_cookie_def
      env_no_identity_def fresh_ie_def h5init_url_def)

text \<open>
  C3, amended. A truthy memoized id is returned with no request and no cookie lookup.
  Otherwise \<open>guest_id\<close> tries its sources in fixed order. The h5init attempt comes first.
  When it gives a non-null string, that is the result and no cookie is looked up. When it
  raises an exception that is not a lookup error (a failed request raises ExtractorError),
  \<open>guest_id\<close> fails with that exception and no cookie is looked up; this is the only way it
  fails. In every other case the \<open>gid\<close> cookie of www.mildom.com is looked up and is the
  result when it is there; only when it is not there, the \<open>gid\<close> cookie of m.mildom.com is
  looked up; and when that is missing too the result is the empty string.
\<close>

theorem guest_id_sources_in_order:
  "(case guest_id E s of (r, s') \<Rightarrow>
     (truthy (GUEST_ID s) \<longrightarrow> r = Inr (GUEST_ID s) \<and> trace s' = trace s) \<and>
     (\<not> truthy (GUEST_ID s) \<longrightarrow>
        (case h5init_guest_id E (guest_id_entry s) of (a, sa) \<Rightarrow>
           (\<exists>evs. trace sa = trace s @ evs) \<and>
           ((\<exists>e. r = Inl e) = propagates a) \<and>
           (if usable a \<or> propagates a then r = a \<and> trace s' = trace sa
            else (case map_of (get_cookies E (now sa) www_url) ''gid'' of
                    Some c \<Rightarrow> r = Inr (JStr c) \<and> trace s' = trace sa @ [GetCookies www_url]
                  | None \<Rightarrow>
                      trace s' = trace sa @ [GetCookies www_url, GetCookies m_url]
                      \<and> r = Inr (case map_of (get_cookies E (Suc (now sa)) m_url) ''gid'' of
                                 Some c \<Rightarrow> JStr c | None \<Rightarrow> JStr ''''))))))"
proof -
  obtain r s' where r: "guest_id E s = (r, s')" by (cases "guest_id E s")
  obtain a sa where h: "h5init_guest_id E (guest_id_entry s) = (a, sa)"
    by (cases "h5init_guest_id E (guest_id_entry s)")
  have cached: "truthy (GUEST_ID s) \<longrightarrow> r = Inr (GUEST_ID s) \<and> trace s' = trace s"
    using r by (auto simp: guest_id_cached guest_id_entry_def)
  have pre: "\<exists>evs. trace sa = trace s @ evs"
    using h5init_trace [of E "guest_id_entry s"] unfolding h by (simp add: guest_id_entry_def)
  have body: "\<not> truthy (GUEST_ID s) \<longrightarrow>
      (if usable a \<or> propagates a then r = a \<and> trace s' = trace sa
       else (case map_of (get_cookies E (now sa) www_url) ''gid'' of
               Some c \<Rightarrow> r = Inr (JStr c) \<and> trace s' = trace sa @ [GetCookies www_url]
             | None \<Rightarrow>
                 trace s' = trace sa @ [GetCookies www_url, GetCookies m_url]
                 \<and> r = Inr (case map_of (get_cookies E (Suc (now sa)) m_url) ''gid'' of
                            Some c \<Rightarrow> JStr c | None \<Rightarrow> JStr '''')))"
    using guest_id_cases [OF _ h r]
    by (auto simp: www_url_def m_url_def split: option.splits if_splits)
  have fails: "\<not> truthy (GUEST_ID s) \<longrightarrow> ((\<exists>e. r = Inl e) = propagates a)"
    using body by (cases a) (auto split: option.splits if_splits)
  from cached pre body fails show ?thesis
    unfolding r h by simp
qed

theorem guest_id_sources_in_order_witness:
  "\<not> truthy (GUEST_ID fresh_ie)
   \<and> fst (h5init_guest_id env_no_identity (guest_id_entry fresh_ie)) = Inl KeyError
   \<and> fst (guest_id env_no_identity fresh_ie) = Inr (JStr '''')
   \<and> fst (h5init_guest_id env_offline (guest_id_entry fresh_ie)) = Inl ExtractorError
   \<and> fst (guest_id env_offline fresh_ie) = Inl ExtractorError"
proof -
  have n: "\<not> truthy (GUEST_ID fresh_ie)" by (simp add: fresh_ie_def)
  have h: "fst (h5init_guest_id env_no_identity (guest_id_entry fresh_ie)) = Inl KeyError"
    by (simp add: h5init_guest_id_def guest_id_entry_def mildom_eval env_no_identity_def
        fresh_ie_def sample_config_def)
  have c: "get_cookies env_no_identity k u = []" for k u by (simp add: env_no_identity_def)
  obtain a sa where hs: "h5init_guest_id env_no_identity (guest_id_entry fresh_ie) = (a, sa)"
    by (cases "h5init_guest_id env_no_identity (guest_id_entry fresh_ie)")
  with h have a: "a = Inl KeyError" by simp
  obtain r s' where g: "guest_id env_no_identity fresh_ie = (r, s')"
    by (cases "guest_id env_no_identity fresh_ie")
  from guest_id_sources_in_order [where E = env_no_identity and s = fresh_ie] n c
  have 1: "fst (guest_id env_no_identity fresh_ie) = Inr (JStr [])"
    unfolding hs a g by auto
  have h': "fst (h5init_guest_id env_offline (guest_id_entry fresh_ie)) = Inl ExtractorError"
    by (simp add: h5init_guest_id_def guest_id_entry_def mildom_eval env_offline_def
        env_no_identity_def fresh_ie_def)
  obtain a' sa' where hs': "h5init_guest_id env_offline (guest_id_entry fresh_ie) = (a', sa')"
    by (cases "h5init_guest_id env_offline (guest_id_entry fresh_ie)")
  with h' have a': "a' = Inl ExtractorError" by simp
  obtain r' s'' where g': "guest_id env_offline fresh_ie = (r', s'')"
    by (cases "guest_id env_offline fresh_ie")
  from guest_id_sources_in_order [where E = env_offline and s = fresh_ie] n
  have 2: "fst (guest_id env_offline fresh_ie) = Inl ExtractorError"
    unfolding hs' a' g' by auto
  from n h 1 h' 2 show ?thesis by simp
qed

section \<open>The dispatcher config: primary endpoint, one fallback\<close>

lemma primary_fails_iff:
  "(fst (primary_config E s) = Inl ExtractorError) =
     (case download_json E (now s) (primary_request E s) of
        None \<Rightarrow> True
      | Some tmp \<Rightarrow> (case getitem tmp ''data'' of
                       Inr (JStr d) \<Rightarrow> (case b64decode E d of Some raw \<Rightarrow> parse_json E raw = None | None \<Rightarrow> False)
                     | _ \<Rightarrow> False))"
  by (auto simp: primary_config_def Let_def dest: getitem_error
      split: option.splits sum.splits json.splits)

text \<open>
  C4 as stated fails in its last part. When the dispatcher answers \<open>{}\<close> (valid JSON
  without \<open>data\<close>), \<open>tmp['data']\<close> raises KeyError, which \<open>except ExtractorError\<close> does not
  catch: the lookup fails after the one request to the primary endpoint, and the fallback
  host, which would have answered, is never asked.
\<close>

theorem missing_data_fails_without_fallback:
  "fst (fetch_dispatcher_config env_no_data fresh_ie) = Inl KeyError
   \<and> trace (snd (fetch_dispatcher_config env_no_data fresh_ie)) = [primary_request env_no_data fresh_ie]
   \<and> download_json env_no_data 1
        (fallback_request env_no_data (snd (fetch_dispatcher_config env_no_data fresh_ie)))
       = Some sample_config"
  by (simp add: mildom_eval env_no_data_def env_no_identity_def fresh_ie_def)

text \<open>
  C4, amended. When no truthy config is memoized, \<open>_fetch_dispatcher_config\<close> asks the
  primary endpoint first. It then asks the fallback endpoint on a proxy host, once, if and
  only if the primary attempt raised ExtractorError (the request failed, or the decoded
  payload did not parse); there is no further request. When the primary attempt raised
  nothing or something else, its outcome is the outcome of the lookup; otherwise the
  fallback's is. So the lookup fails with ExtractorError only if both the primary and the
  fallback failed.
\<close>

theorem dispatcher_two_tier_fallback:
  assumes "\<not> truthy (DISPATCHER_CONFIG s)"
  shows "(case primary_config E s of (p, s1) \<Rightarrow>
          (case fetch_dispatcher_config E s of (r, s') \<Rightarrow>
             trace s' = trace s @ primary_request E s #
                          (if p = Inl ExtractorError then [fallback_request E s1] else [])
             \<and> (p \<noteq> Inl ExtractorError \<longrightarrow> r = p)
             \<and> (p = Inl ExtractorError \<longrightarrow>
                  r = (case download_json E (now s1) (fallback_request E s1) of
                         None \<Rightarrow> Inl ExtractorError | Some cfg \<Rightarrow> Inr cfg))
             \<and> (r = Inl ExtractorError \<longrightarrow>
                  p = Inl ExtractorError \<and> download_json E (now s1) (fallback_request E s1) = None)))"
proof -
  obtain p s1 where p: "primary_config E s = (p, s1)" by (cases "primary_config E s")
  from primary_config_frame [OF p] have s1: "s1 = emit (primary_request E s) s" .
  show ?thesis
    using assms
    by (cases p) (auto simp: p fetch_dispatcher_config_def Let_def s1 emit_def split: option.splits)
qed

theorem dispatcher_two_tier_fallback_witness:
  "\<not> truthy (DISPATCHER_CONFIG fresh_ie)
   \<and> fst (primary_config env_primary_down fresh_ie) = Inl ExtractorError
   \<and> fst (fetch_dispatcher_config env_primary_down fresh_ie) = Inr sample_config
   \<and> trace (snd (fetch_dispatcher_config env_primary_down fresh_ie))
       = [primary_request env_primary_down fresh_ie,
          fallback_request env_primary_down (snd (primary_config env_primary_down fresh_ie))]"
proof -
  have n: "\<not> truthy (DISPATCHER_CONFIG fresh_ie)" by (simp add: fresh_ie_def)
  have p: "fst (primary_config env_primary_down fresh_ie) = Inl ExtractorError"
    by (simp add: mildom_eval env_primary_down_def env_no_identity_def fresh_ie_def)
  have d: "download_json env_primary_down (now (snd (primary_config env_primary_down fresh_ie))) req
             = Some sample_config" for req
    by (simp add: mildom_eval env_primary_down_def env_no_identity_def fresh_ie_def)
  have tr: "trace fresh_ie = []" by (simp add: fresh_ie_def)
  from dispatcher_two_tier_fallback [OF n, of env_primary_down] n p d tr show ?thesis
    by (auto split: prod.splits)
qed

section \<open>The init request carries no guest id\<close>

text \<open>
  C10. With \<open>init=True\<close>, \<open>_common_queries\<close> and \<open>_call_api\<close> do not invoke \<open>guest_id\<close>
  (the count of its invocations stays as it was), and the query they build has
  \<open>'__guest_id': ''\<close> unless the caller's own query sets that key (the h5init request
  passes no query). Every call of \<open>guest_id\<close> therefore amounts to exactly one invocation
  of it: acquiring the guest id never starts another acquisition. That the three
  functions, which call each other, return at all is the termination proof of their
  definition.
\<close>

theorem init_request_has_no_guest_id:
  "guest_id_calls (snd (common_queries E q True s)) = guest_id_calls s
   \<and> guest_id_calls (snd (call_api E url q True s)) = guest_id_calls s
   \<and> (\<forall>qq. fst (common_queries E q True s) = Inr qq \<longrightarrow> ''__guest_id'' \<notin> fst ` set q \<longrightarrow>
         map_of qq ''__guest_id'' = Some (JStr ''''))
   \<and> guest_id_calls (snd (guest_id E s)) = Suc (guest_id_calls s)"
proof -
  obtain r1 s1 where c: "common_queries E q True s = (r1, s1)" by (cases "common_queries E q True s")
  obtain r2 s2 where a: "call_api E url q True s = (r2, s2)" by (cases "call_api E url q True s")
  from common_queries_init_frame [OF c] have 1: "guest_id_calls (snd (common_queries E q True s)) = guest_id_calls s"
    by (simp add: c)
  from call_api_init_frame [OF a] have 2: "guest_id_calls (snd (call_api E url q True s)) = guest_id_calls s"
    by (simp add: a)
  have 3: "\<forall>qq. fst (common_queries E q True s) = Inr qq \<longrightarrow> ''__guest_id'' \<notin> fst ` set q \<longrightarrow>
         map_of qq ''__guest_id'' = Some (JStr '''')"
    using common_queries_init_guest [of E q s _ s1] by (simp add: c)
  from 1 2 3 guest_id_counts show ?thesis by blast
qed

theorem init_request_has_no_guest_id_witness:
  "fst (common_queries env_no_identity [] True cached_ie) \<noteq> Inl KeyError
   \<and> map_of (case fst (common_queries env_no_identity [] True cached_ie) of Inr qq \<Rightarrow> qq | Inl e \<Rightarrow> [])
        ''__guest_id'' = Some (JStr '''')"
proof -
  have e: "fst (common_queries env_no_identity [] True cached_ie) =
      Inr [(''timestamp'', JStr ''2021-06-20T00:00:00.000Z''), (''__guest_id'', JStr ''''),
           (''__location'', JStr ''JP''), (''__country'', JStr ''Japan''),
           (''__cluster'', JStr ''aws_japan''), (''__platform'', JStr ''web''),
           (''__la'', JStr ''ja''), (''__pcv'', JStr ''v2.9.44''), (''sfr'', JStr ''pc''),
           (''accessToken'', JStr '''')]"
    by (simp add: mildom_eval env_no_identity_def fresh_ie_def cached_ie_def sample_config_def)
  from init_request_has_no_guest_id [of env_no_identity "[]" cached_ie] e show ?thesis
    by simp
qed

section \<open>The fallback combinator\<close>



section \<open>The NHK for School patterns\<close>

lemma concat_map_nonempty: "(concat (map f xs) \<noteq> []) = (\<exists>x \<in> set xs. f x \<noteq> [])"
  by (induction xs) auto

lemma re_match_Seq: "re_match (Seq a b) s = (\<exists>t \<in> set (rems a s). re_match b t)"
  by (simp add: re_match_def concat_map_nonempty)

lemma re_match_Seq_weaken:
  assumes "re_match (Seq a b) s" and "\<And>t. re_match b t \<Longrightarrow> re_match c t"
  shows "re_match (Seq a c) s"
  using assms unfolding re_match_Seq by blast

lemma re_match_Seq_left: "re_match (Seq a b) s \<Longrightarrow> re_match a s"
  by (auto simp: re_match_def concat_map_nonempty)

lemma school_head_weaken:
  assumes "re_match (school_head r) s" and "\<And>t. re_match r t \<Longrightarrow> re_match r' t"
  shows "re_match (school_head r') s"
  using assms unfolding school_head_def
  by (blast intro: re_match_Seq_weaken)

lemma ProgramList_is_extension: "re_match ProgramList_VALID_URL url \<Longrightarrow> re_match Subject_VALID_URL url"
  unfolding ProgramList_VALID_URL_def Subject_VALID_URL_def
  by (erule school_head_weaken) (rule re_match_Seq_left)

text \<open>
  C6. Every URL that the program-list pattern matches also matches the subject pattern
  (the subject pattern is a prefix of it), yet \<open>NhkForSchoolSubjectIE.suitable\<close> is False
  there and \<open>NhkForSchoolProgramListIE.suitable\<close> is True: exactly one of the two
  handlers is suitable for such a URL.
\<close>

theorem subject_never_claims_program_list:
  assumes "re_match ProgramList_VALID_URL url"
  shows "base_suitable Subject_VALID_URL url \<and> \<not> Subject_suitable url
         \<and> ProgramList_suitable url
         \<and> (Subject_suitable url \<noteq> ProgramList_suitable url)"
  using assms ProgramList_is_extension [OF assms]
  by (simp add: Subject_suitable_def ProgramList_suitable_def base_suitable_def)

theorem subject_never_claims_program_list_witness:
  "re_match ProgramList_VALID_URL ''https://www.nhk.or.jp/school/sougou/q/''
   \<and> \<not> Subject_suitable ''https://www.nhk.or.jp/school/sougou/q/''
   \<and> ProgramList_suitable ''https://www.nhk.or.jp/school/sougou/q/''"
proof -
  have h: "re_match ProgramList_VALID_URL ''https://www.nhk.or.jp/school/sougou/q/''"
    by code_simp
  from subject_never_claims_program_list [OF h] h show ?thesis by simp
qed

section \<open>Draining paginated listings\<close>

lemma vod_pages_drain:
  assumes "\<And>p. page \<le> p \<Longrightarrow> p < n \<Longrightarrow>
            (\<exists>reply. api p = Inr reply \<and> truthy reply \<and> page_urls str user reply = Inr (urls p))"
    and "page \<le> n" and "api n = Inr last_reply" and "\<not> truthy last_reply"
  shows "vod_pages api str user page results fetched =
           Some (Inr (results @ concat (map urls [page..<n])), fetched @ [page..<Suc n])"
  using assms
proof (induction "n - page" arbitrary: page results fetched)
  case 0
  then have "page = n" by simp
  with 0 show ?case by (subst vod_pages.simps) simp
next
  case (Suc k)
  then have lt: "page < n" by simp
  from Suc.prems(1) [OF le_refl lt] obtain reply where
    r: "api page = Inr reply" "truthy reply" "page_urls str user reply = Inr (urls page)" by blast
  have ih: "vod_pages api str user (Suc page) (results @ urls page) (fetched @ [page]) =
      Some (Inr ((results @ urls page) @ concat (map urls [Suc page..<n])),
            (fetched @ [page]) @ [Suc page..<Suc n])"
    using Suc.hyps Suc.prems lt by (intro Suc.hyps(1)) auto
  show ?case
    using r lt ih
    by (subst vod_pages.simps) (simp add: upt_conv_Cons)
qed

lemma tc_pages_drain:
  assumes "\<And>k. page \<le> k \<Longrightarrow> k \<le> n \<Longrightarrow> tc_download_webpage E (u k) k = Some (w k)"
    and "\<And>k. page \<le> k \<Longrightarrow> k < n \<Longrightarrow>
           urljoin E base_url (tc_next_link E uploader_id k (w k)) = Some (u (Suc k)) \<and> u (Suc k) \<noteq> []"
    and "page \<le> n"
    and "urljoin E base_url (tc_next_link E uploader_id n (w n)) = None
         \<or> urljoin E base_url (tc_next_link E uploader_id n (w n)) = Some []"
  shows "TwitCastingUser_pages E uploader_id base_url (u page) page yielded =
           Some (None, yielded @ concat (map (\<lambda>k. page_entries E base_url (w k)) [page..<Suc n]))"
  using assms
proof (induction "n - page" arbitrary: page yielded)
  case 0
  then have "page = n" by simp
  with 0 show ?case by (subst TwitCastingUser_pages.simps) auto
next
  case (Suc k)
  then have lt: "page < n" by simp
  have d: "tc_download_webpage E (u page) page = Some (w page)"
    using Suc.prems(1) [of page] lt by simp
  have nx: "urljoin E base_url (tc_next_link E uploader_id page (w page)) = Some (u (Suc page))"
    "u (Suc page) \<noteq> []"
    using Suc.prems(2) [of page] lt by simp_all
  have ih: "TwitCastingUser_pages E uploader_id base_url (u (Suc page)) (Suc page)
              (yielded @ page_entries E base_url (w page)) =
      Some (None, (yielded @ page_entries E base_url (w page)) @
              concat (map (\<lambda>k. page_entries E base_url (w k)) [Suc page..<Suc n]))"
    using Suc.hyps Suc.prems lt by (intro Suc.hyps(1)) auto
  have up: "[page..<Suc n] = page # [Suc page..<Suc n]"
    using lt by (simp add: upt_conv_Cons)
  show ?case
    using d nx ih
    by (subst TwitCastingUser_pages.simps) (simp add: up del: upt_Suc)
qed

text \<open>
  C7, amended. \<open>MildomUserVodIE\<close> requests the pages 1, 2, ... one at a time and stops at
  the first falsy reply, page \<open>n\<close>: it returns the concatenation of the URLs of the pages
  before it, in order, and has requested exactly the pages 1 to \<open>n\<close>.
  \<open>TwitCastingUserIE\<close> requests one page at a time, following the link to the next page;
  it stops at the first page \<open>n\<close> without such a link and has yielded the entries of
  every page it fetched, pages 1 to \<open>n\<close>, in order. A page without entries yields nothing
  and does not stop it. For pages \<open>[[a, b], [c], []]\<close> both give \<open>[a, b, c]\<close>.
\<close>

theorem pagination_drains:
  "((\<forall>p. 1 \<le> p \<and> p < n \<longrightarrow>
        (\<exists>reply. api p = Inr reply \<and> truthy reply \<and> page_urls str user reply = Inr (urls p)))
     \<and> 1 \<le> n \<and> (\<exists>last_reply. api n = Inr last_reply \<and> \<not> truthy last_reply)
    \<longrightarrow> MildomUserVod_results api str user = Some (Inr (concat (map urls [1..<n])), [1..<Suc n]))
   \<and> ((\<forall>k. 1 \<le> k \<and> k \<le> n \<longrightarrow> tc_download_webpage E (u k) k = Some (w k))
       \<and> (\<forall>k. 1 \<le> k \<and> k < n \<longrightarrow>
             urljoin E (show_url uploader_id) (tc_next_link E uploader_id k (w k)) = Some (u (Suc k))
             \<and> u (Suc k) \<noteq> [])
       \<and> 1 \<le> n \<and> u 1 = show_url uploader_id
       \<and> (urljoin E (show_url uploader_id) (tc_next_link E uploader_id n (w n)) = None
          \<or> urljoin E (show_url uploader_id) (tc_next_link E uploader_id n (w n)) = Some [])
    \<longrightarrow> TwitCastingUser_entries E uploader_id =
          Some (None, concat (map (\<lambda>k. page_entries E (show_url uploader_id) (w k)) [1..<Suc n])))"
proof (intro conjI impI)
  assume a: "(\<forall>p. 1 \<le> p \<and> p < n \<longrightarrow>
        (\<exists>reply. api p = Inr reply \<and> truthy reply \<and> page_urls str user reply = Inr (urls p)))
     \<and> 1 \<le> n \<and> (\<exists>last_reply. api n = Inr last_reply \<and> \<not> truthy last_reply)"
  then obtain last_reply where l: "api n = Inr last_reply" "\<not> truthy last_reply" by blast
  from a have n: "1 \<le> n" by simp
  have "vod_pages api str user 1 [] [] =
          Some (Inr ([] @ concat (map urls [1..<n])), [] @ [1..<Suc n])"
    using a n l by (intro vod_pages_drain [where last_reply = last_reply]) auto
  then show "MildomUserVod_results api str user = Some (Inr (concat (map urls [1..<n])), [1..<Suc n])"
    by (simp add: MildomUserVod_results_def)
next
  assume a: "(\<forall>k. 1 \<le> k \<and> k \<le> n \<longrightarrow> tc_download_webpage E (u k) k = Some (w k))
       \<and> (\<forall>k. 1 \<le> k \<and> k < n \<longrightarrow>
             urljoin E (show_url uploader_id) (tc_next_link E uploader_id k (w k)) = Some (u (Suc k))
             \<and> u (Suc k) \<noteq> [])
       \<and> 1 \<le> n \<and> u 1 = show_url uploader_id
       \<and> (urljoin E (show_url uploader_id) (tc_next_link E uploader_id n (w n)) = None
          \<or> urljoin E (show_url uploader_id) (tc_next_link E uploader_id n (w n)) = Some [])"
  have "TwitCastingUser_pages E uploader_id (show_url uploader_id) (u 1) 1 [] =
          Some (None, [] @ concat (map (\<lambda>k. page_entries E (show_url uploader_id) (w k)) [1..<Suc n]))"
    using a by (intro tc_pages_drain) auto
  with a show "TwitCastingUser_entries E uploader_id =
          Some (None, concat (map (\<lambda>k. page_entries E (show_url uploader_id) (w k)) [1..<Suc n]))"
    by (simp add: TwitCastingUser_entries_def)
qed

lemma upto3: "[1..<3] = [1, 2::nat]" "[1..<Suc 3] = [1, 2, 3::nat]"
  by (simp_all add: upt_conv_Cons)

theorem pagination_drains_witness:
  "MildomUserVod_results three_pages str_of ''10093333'' =
     Some (Inr [''https://www.mildom.com/playback/10093333/a'',
                ''https://www.mildom.com/playback/10093333/b'',
                ''https://www.mildom.com/playback/10093333/c''], [1, 2, 3])
   \<and> TwitCastingUser_entries tc_three_pages ''u'' =
     Some (None, [url_result (Some ''https://twitcasting.tv/u/movie/1''),
                  url_result (Some ''https://twitcasting.tv/u/movie/2''),
                  url_result (Some ''https://twitcasting.tv/u/movie/3'')])"
proof -
  have m1: "\<forall>p. 1 \<le> p \<and> p < 3 \<longrightarrow>
      (\<exists>reply. three_pages p = Inr reply \<and> truthy reply
         \<and> page_urls str_of ''10093333'' reply = Inr (three_urls p))"
  proof (intro allI impI)
    fix p :: nat assume "1 \<le> p \<and> p < 3"
    then have "p = 1 \<or> p = 2" by arith
    then show "\<exists>reply. three_pages p = Inr reply \<and> truthy reply
         \<and> page_urls str_of ''10093333'' reply = Inr (three_urls p)"
      by (auto simp: three_pages_def three_urls_def page_urls_def vod_item_def)
  qed
  have m2: "\<exists>last_reply. three_pages 3 = Inr last_reply \<and> \<not> truthy last_reply"
    by (simp add: three_pages_def)
  have t1: "\<forall>k. 1 \<le> k \<and> k \<le> 3 \<longrightarrow>
      tc_download_webpage tc_three_pages (tc_page_url k) k = Some (tc_page_name k)"
    by (simp add: tc_three_pages_def)
  have t2: "\<forall>k. 1 \<le> k \<and> k < 3 \<longrightarrow>
      urljoin tc_three_pages (show_url ''u'') (tc_next_link tc_three_pages ''u'' k (tc_page_name k))
        = Some (tc_page_url (Suc k)) \<and> tc_page_url (Suc k) \<noteq> []"
  proof (intro allI impI)
    fix k :: nat assume "1 \<le> k \<and> k < 3"
    then have "k = 1 \<or> k = 2" by arith
    then show "urljoin tc_three_pages (show_url ''u'') (tc_next_link tc_three_pages ''u'' k (tc_page_name k))
        = Some (tc_page_url (Suc k)) \<and> tc_page_url (Suc k) \<noteq> []"
      by (auto simp: tc_three_pages_def tc_page_name_def tc_page_url_def)
  qed
  have t3: "tc_page_url 1 = show_url ''u''" by (simp add: tc_page_url_def show_url_def)
  have t4: "urljoin tc_three_pages (show_url ''u'') (tc_next_link tc_three_pages ''u'' 3 (tc_page_name 3)) = None"
    by (simp add: tc_three_pages_def tc_page_name_def)
  from pagination_drains [of 3 three_pages str_of "''10093333''" three_urls tc_three_pages
      tc_page_url tc_page_name "''u''"] m1 m2 t1 t2 t3 t4
  have "MildomUserVod_results three_pages str_of ''10093333''
          = Some (Inr (concat (map three_urls [1..<3])), [1..<Suc 3])"
    and "TwitCastingUser_entries tc_three_pages ''u'' =
          Some (None, concat (map (\<lambda>k. page_entries tc_three_pages (show_url ''u'') (tc_page_name k)) [1..<Suc 3]))"
    by simp_all
  then show ?thesis
    unfolding upto3
    by (simp add: page_entries_def tc_three_pages_def tc_page_name_def three_urls_def)
qed

text \<open>
  C7 as stated fails for \<open>TwitCastingUserIE\<close>: it does not stop at the first empty page.
  The second page lists no movie and links to a third page; the movie of the third page
  is yielded after that of the first.
\<close>

theorem twitcasting_drain_passes_empty_page:
  "tc_thumbnail_links tc_gap_pages (tc_page_name 2) = []
   \<and> TwitCastingUser_entries tc_gap_pages ''u'' =
       Some (None, [url_result (Some ''https://twitcasting.tv/u/movie/1''),
                    url_result (Some ''https://twitcasting.tv/u/movie/2'')])"
  by (simp add: TwitCastingUser_entries_def TwitCastingUser_pages.simps tc_gap_pages_def
      tc_three_pages_def tc_page_name_def page_entries_def show_url_def)

section \<open>TwitCasting movies are always reported live\<close>

lemma offline_extract:
  "TwitCasting_real_extract offline_env url = Inr offline_info"
  by (simp add: TwitCasting_real_extract_def offline_env_def offline_info_def offline_page_def
      online_marker_def request_data_def pure_getter_def movie_playlist_entry_def py_or_def Let_def)

text \<open>
  C9. Every info dict that \<open>TwitCastingIE._real_extract\<close> returns has
  \<open>'is_live': True\<close>, also for a page that does not report the status online; there the
  computed flag only made the format list the single \<open>hls\<close> format.
\<close>

theorem twitcasting_is_live_always_true:
  assumes "TwitCasting_real_extract E url = Inr info"
  shows "map_of info ''is_live'' = Some (JBool True)"
  using assms
  by (auto simp: TwitCasting_real_extract_def Let_def split: option.splits if_splits sum.splits)

theorem twitcasting_is_live_always_true_witness:
  "\<not> contains online_marker offline_page
   \<and> TwitCasting_real_extract offline_env ''https://twitcasting.tv/ivetesangalo/movie/2357609''
       = Inr offline_info
   \<and> map_of offline_info ''is_live'' = Some (JBool True)
   \<and> map_of offline_info ''formats''
       = Some (JArr [hls_format (JStr ''https://dl.twitcasting.tv/2357609.m3u8'')])"
proof -
  have o: "\<not> contains online_marker offline_page"
    by (simp add: online_marker_def offline_page_def)
  have f: "map_of offline_info ''formats''
       = Some (JArr [hls_format (JStr ''https://dl.twitcasting.tv/2357609.m3u8'')])"
    by (simp add: offline_info_def)
  from twitcasting_is_live_always_true [OF offline_extract] o f offline_extract show ?thesis
    by simp
qed

section \<open>Following redirects\<close>








end
